theory Spec2Isabelle
  imports Main "HOL-Library.Word"
begin

section \<open>Python values and token payloads\<close>

text \<open>
  A decoded token payload is a Python dict read from JSON. Its values are modelled by
  \<open>pyval\<close> (JSON floats are left out); \<open>truthy\<close> is Python's truth test, which
  \<^verbatim>\<open>if not x\<close> and \<^verbatim>\<open>a or b\<close> apply to such a value.
\<close>

datatype pyval =
    PNone
  | PBool bool
  | PInt int
  | PStr string
  | PList "pyval list"
  | PDict "(string \<times> pyval) list"

fun truthy :: "pyval \<Rightarrow> bool" where
  "truthy PNone = False"
| "truthy (PBool b) = b"
| "truthy (PInt n) = (n \<noteq> 0)"
| "truthy (PStr s) = (s \<noteq> [])"
| "truthy (PList xs) = (xs \<noteq> [])"
| "truthy (PDict kvs) = (kvs \<noteq> [])"

definition py_or :: "pyval \<Rightarrow> pyval \<Rightarrow> pyval" where
  \<comment> \<open>\<^verbatim>\<open>a or b\<close>\<close>
  "py_or a b = (if truthy a then a else b)"

type_synonym payload = "(string \<times> pyval) list"

definition dict_get_default :: "payload \<Rightarrow> string \<Rightarrow> pyval \<Rightarrow> pyval" where
  \<comment> \<open>\<^verbatim>\<open>payload.get(key, default)\<close>\<close>
  "dict_get_default p k d = (case map_of p k of None \<Rightarrow> d | Some v \<Rightarrow> v)"

definition dict_get :: "payload \<Rightarrow> string \<Rightarrow> pyval" where
  \<comment> \<open>\<^verbatim>\<open>payload.get(key)\<close>, None when the key is absent\<close>
  "dict_get p k = dict_get_default p k PNone"

text \<open>
  \<open>decode_token\<close> returns the payload dict or \<open>None\<close>; \<open>not_payload\<close> is
  \<^verbatim>\<open>not payload\<close> on that result, true of \<open>None\<close> and of the empty dict.
\<close>

fun not_payload :: "payload option \<Rightarrow> bool" where
  "not_payload None = True"
| "not_payload (Some p) = (p = [])"

section \<open>Errors and responses\<close>

text \<open>
  Every raise of the source is a value. \<open>HTTPException\<close> carries status code, detail and
  headers; the other constructors are exceptions no handler of the application catches.
\<close>

datatype error =
    HTTPException nat string "(string \<times> string) list"
  | IntegrityError
  | DataError
  | AttributeError
  | ValueError
  | TypeError

text \<open>
  A handler's outcome is the raised error or the success status of its route decorator with
  the response body. \<open>http_status\<close> is the status code the caller sees: an exception that is
  not an HTTPException is answered with 500 by the framework.
\<close>

type_synonym 'a outcome = "error + (nat \<times> 'a)"

fun http_status :: "'a outcome \<Rightarrow> nat" where
  "http_status (Inl (HTTPException code detail headers)) = code"
| "http_status (Inl e) = 500"
| "http_status (Inr (code, body)) = code"

section \<open>Collaborators outside the handlers\<close>

type_synonym uuid = "128 word"
type_synonym datetime = int

text \<open>
  The module \<^verbatim>\<open>src/core/security.py\<close> is imported by every handler and is not part of the
  sources at hand, so its functions are parameters of the model. \<open>decode_token\<close> returns the
  payload or \<open>None\<close>; the token constructors stand for one call each (they read the clock
  and draw a fresh jti).
\<close>

record security =
  decode_token :: "string \<Rightarrow> payload option"
  get_jti_from_token :: "string \<Rightarrow> pyval"
  verify_password :: "string \<Rightarrow> string \<Rightarrow> bool"
  get_password_hash :: "string \<Rightarrow> string"
  create_access_token :: "payload \<Rightarrow> string"
  create_refresh_token :: "payload \<Rightarrow> string"

text \<open>
  Library and database behaviour the handlers rely on: \<open>UUID_hex s\<close> is
  \<^verbatim>\<open>uuid.UUID(s)\<close> on a str, with \<open>None\<close> for its ValueError; \<open>str_uuid\<close> is
  \<^verbatim>\<open>str(u)\<close>; \<open>uuid4\<close> is the primary key drawn for a new row; \<open>utcnow\<close> and \<open>now\<close> are
  the clock readings; \<open>fromtimestamp\<close> is \<^verbatim>\<open>datetime.fromtimestamp\<close>; \<open>isoformat\<close> is
  \<^verbatim>\<open>datetime.isoformat\<close>; \<open>db_uuid\<close> is the store's coercion of a bound value to a
  UUID column, \<open>None\<close> when it refuses the value.
\<close>

record runtime =
  UUID_hex :: "string \<Rightarrow> uuid option"
  str_uuid :: "uuid \<Rightarrow> string"
  uuid4 :: uuid
  utcnow :: datetime
  now :: datetime
  fromtimestamp :: "pyval \<Rightarrow> error + datetime"
  isoformat :: "datetime \<Rightarrow> string"
  db_uuid :: "pyval \<Rightarrow> uuid option"

definition UUID :: "runtime \<Rightarrow> pyval \<Rightarrow> error + uuid" where
  \<comment> \<open>\<^verbatim>\<open>UUID(x)\<close>: it calls \<^verbatim>\<open>x.replace\<close> first, which only a str has\<close>
  "UUID rt x =
     (case x of
        PStr s \<Rightarrow> (case UUID_hex rt s of None \<Rightarrow> Inl ValueError | Some u \<Rightarrow> Inr u)
      | _ \<Rightarrow> Inl AttributeError)"

section \<open>The persistent store\<close>

text \<open>
  The columns of \<^verbatim>\<open>users\<close> and \<^verbatim>\<open>token_blacklist\<close> that the handlers read or
  write (\<^verbatim>\<open>src/database/models.py\<close>). \<open>is_active\<close> is a nullable Boolean column. A
  blacklist row keeps \<open>jti\<close> and \<open>user_id\<close> as the values the handler passed; its
  server-generated columns (id, blacklisted_at, created_at) are left out.
\<close>

record User =
  u_id :: uuid
  u_email :: string
  u_username :: string
  u_full_name :: "string option"
  u_hashed_password :: string
  u_is_active :: "bool option"
  u_is_verified :: "bool option"
  u_created_at :: "datetime option"
  u_last_login :: "datetime option"

record TokenBlacklist =
  bl_jti :: pyval
  bl_user_id :: pyval
  bl_token_type :: string
  bl_expires_at :: datetime
  bl_reason :: string

record db =
  users :: "User list"
  token_blacklist :: "TokenBlacklist list"

definition first_by_email :: "db \<Rightarrow> string \<Rightarrow> User option" where
  \<comment> \<open>\<^verbatim>\<open>db.query(User).filter(User.email == e).first()\<close>\<close>
  "first_by_email d e = find (\<lambda>u. u_email u = e) (users d)"

definition first_by_username :: "db \<Rightarrow> string \<Rightarrow> User option" where
  "first_by_username d n = find (\<lambda>u. u_username u = n) (users d)"

text \<open>
  Inserting a user row: \<^verbatim>\<open>id\<close> is the primary key, \<^verbatim>\<open>email\<close> and \<^verbatim>\<open>username\<close>
  are declared \<^verbatim>\<open>unique=True\<close>. A violated constraint makes \<^verbatim>\<open>db.commit()\<close> raise
  IntegrityError and nothing is stored.
\<close>

definition insert_user :: "db \<Rightarrow> User \<Rightarrow> error + db" where
  "insert_user d u =
     (if u_id u \<in> set (map u_id (users d)) \<or> u_email u \<in> set (map u_email (users d))
         \<or> u_username u \<in> set (map u_username (users d))
      then Inl IntegrityError
      else Inr (d\<lparr>users := users d @ [u]\<rparr>))"

text \<open>
  Inserting a blacklist row: \<^verbatim>\<open>jti\<close> is declared \<^verbatim>\<open>unique=True\<close>; \<^verbatim>\<open>user_id\<close> is a
  UUID column with a foreign key to \<^verbatim>\<open>users.id\<close>, so the store coerces the bound value
  and refuses one that names no user. The row keeps \<^verbatim>\<open>jti\<close> as the value the handler
  passed, and the length bound of the \<^verbatim>\<open>String(500)\<close> column is not modelled. Either refusal makes \<^verbatim>\<open>db.commit()\<close> raise and
  nothing is stored.
\<close>

definition insert_blacklist :: "runtime \<Rightarrow> db \<Rightarrow> TokenBlacklist \<Rightarrow> error + db" where
  "insert_blacklist rt d e =
     (case db_uuid rt (bl_user_id e) of
        None \<Rightarrow> Inl DataError
      | Some u \<Rightarrow>
          if bl_jti e \<in> set (map bl_jti (token_blacklist d)) then Inl IntegrityError
          else if u \<notin> set (map u_id (users d)) then Inl IntegrityError
          else Inr (d\<lparr>token_blacklist := token_blacklist d @ [e]\<rparr>))"

fun commit_blacklist :: "runtime \<Rightarrow> db \<Rightarrow> TokenBlacklist list \<Rightarrow> error + db" where
  \<comment> \<open>\<^verbatim>\<open>db.commit()\<close> flushing the rows added with \<^verbatim>\<open>db.add\<close>, in the order added\<close>
  "commit_blacklist rt d [] = Inr d"
| "commit_blacklist rt d (e # es) =
     (case insert_blacklist rt d e of Inl x \<Rightarrow> Inl x | Inr d' \<Rightarrow> commit_blacklist rt d' es)"

definition set_last_login :: "db \<Rightarrow> User \<Rightarrow> datetime \<Rightarrow> db" where
  \<comment> \<open>\<^verbatim>\<open>user.last_login = t; db.commit()\<close>: an UPDATE of the row with that primary key\<close>
  "set_last_login d user t =
     d\<lparr>users := map (\<lambda>u. if u_id u = u_id user then u\<lparr>u_last_login := Some t\<rparr> else u) (users d)\<rparr>"

section \<open>Request and response schemas\<close>

record LoginRequest =
  lr_email :: string
  lr_password :: string

record RegisterRequest =
  rr_email :: string
  rr_username :: string
  rr_password :: string
  rr_full_name :: "string option"

record TokenResponse =
  access_token :: string
  refresh_token :: string
  token_type :: string

record RefreshTokenRequest =
  rq_refresh_token :: string

record LogoutRequest =
  lo_access_token :: string
  lo_refresh_token :: string

record UserResponse =
  ur_id :: string
  ur_email :: string
  ur_username :: string
  ur_full_name :: "string option"
  ur_is_active :: "bool option"
  ur_created_at :: "string option"

section \<open>The handlers\<close>

text \<open>
  Each handler takes the store and returns its outcome with the store as it is afterwards;
  a raise leaves the store as it was.
\<close>

definition login :: "security \<Rightarrow> runtime \<Rightarrow> LoginRequest \<Rightarrow> db \<Rightarrow> TokenResponse outcome \<times> db" where
  "login sec rt login_data d =
     (case first_by_email d (lr_email login_data) of
        None \<Rightarrow> (Inl (HTTPException 401 ''Invalid email or password'' []), d)
      | Some user \<Rightarrow>
          if \<not> verify_password sec (lr_password login_data) (u_hashed_password user)
          then (Inl (HTTPException 401 ''Invalid email or password'' []), d)
          else if u_is_active user \<noteq> Some True
          then (Inl (HTTPException 403 ''User account is disabled'' []), d)
          else
            let access = create_access_token sec [(''sub'', PStr (str_uuid rt (u_id user)))];
                refresh = create_refresh_token sec [(''sub'', PStr (str_uuid rt (u_id user)))]
            in (Inr (200, \<lparr>access_token = access, refresh_token = refresh, token_type = ''bearer''\<rparr>),
                set_last_login d user (utcnow rt)))"

definition new_user :: "security \<Rightarrow> runtime \<Rightarrow> RegisterRequest \<Rightarrow> User" where
  \<comment> \<open>the \<^verbatim>\<open>User(...)\<close> row of register, with the column defaults the store fills in\<close>
  "new_user sec rt register_data =
     \<lparr>u_id = uuid4 rt, u_email = rr_email register_data, u_username = rr_username register_data,
      u_full_name = rr_full_name register_data,
      u_hashed_password = get_password_hash sec (rr_password register_data),
      u_is_active = Some True, u_is_verified = Some False,
      u_created_at = Some (now rt), u_last_login = None\<rparr>"

definition user_response :: "runtime \<Rightarrow> User \<Rightarrow> UserResponse" where
  "user_response rt u =
     \<lparr>ur_id = str_uuid rt (u_id u), ur_email = u_email u, ur_username = u_username u,
      ur_full_name = u_full_name u, ur_is_active = u_is_active u,
      ur_created_at = (case u_created_at u of None \<Rightarrow> None | Some t \<Rightarrow> Some (isoformat rt t))\<rparr>"

definition register :: "security \<Rightarrow> runtime \<Rightarrow> RegisterRequest \<Rightarrow> db \<Rightarrow> UserResponse outcome \<times> db" where
  "register sec rt register_data d =
     (case first_by_email d (rr_email register_data) of
        Some existing_user \<Rightarrow> (Inl (HTTPException 400 ''Email already registered'' []), d)
      | None \<Rightarrow>
         (case first_by_username d (rr_username register_data) of
            Some existing_username \<Rightarrow> (Inl (HTTPException 400 ''Username already taken'' []), d)
          | None \<Rightarrow>
              (case insert_user d (new_user sec rt register_data) of
                 Inl e \<Rightarrow> (Inl e, d)
               | Inr d' \<Rightarrow> (Inr (201, user_response rt (new_user sec rt register_data)), d'))))"

text \<open>
  In each handler the branch for \<open>None\<close> after the \<open>not_payload\<close> test is what
  \<^verbatim>\<open>payload.get\<close> would do on \<open>None\<close>; the test before it keeps it from being reached.
\<close>

definition refresh_token_handler :: "security \<Rightarrow> RefreshTokenRequest \<Rightarrow> db \<Rightarrow> TokenResponse outcome \<times> db" where
  \<comment> \<open>the handler \<^verbatim>\<open>refresh_token\<close> of refresh.py (the name is taken by the response field)\<close>
  "refresh_token_handler sec refresh_data d =
     (let payload = decode_token sec (rq_refresh_token refresh_data)
      in if not_payload payload then (Inl (HTTPException 401 ''Invalid refresh token'' []), d)
         else (case payload of
                 None \<Rightarrow> (Inl AttributeError, d)
               | Some p \<Rightarrow>
                   if dict_get p ''type'' \<noteq> PStr ''refresh''
                   then (Inl (HTTPException 401 ''Invalid token type'' []), d)
                   else
                     let user_id = dict_get p ''sub'' in
                     if \<not> truthy user_id then (Inl (HTTPException 401 ''Invalid token payload'' []), d)
                     else (Inr (200, \<lparr>access_token = create_access_token sec [(''sub'', user_id)],
                                      refresh_token = rq_refresh_token refresh_data,
                                      token_type = ''bearer''\<rparr>), d)))"

definition blacklist_entry :: "runtime \<Rightarrow> pyval \<Rightarrow> pyval \<Rightarrow> string \<Rightarrow> payload \<Rightarrow> error + TokenBlacklist list" where
  \<comment> \<open>one \<^verbatim>\<open>if jti: db.add(TokenBlacklist(...))\<close> block of logout: the rows it adds\<close>
  "blacklist_entry rt jti user_id kind p =
     (if truthy jti then
        (case fromtimestamp rt (dict_get_default p ''exp'' (PInt 0)) of
           Inl e \<Rightarrow> Inl e
         | Inr t \<Rightarrow> Inr [\<lparr>bl_jti = jti, bl_user_id = user_id, bl_token_type = kind,
                          bl_expires_at = t, bl_reason = ''logout''\<rparr>])
      else Inr [])"

definition logout :: "security \<Rightarrow> runtime \<Rightarrow> LogoutRequest \<Rightarrow> db \<Rightarrow> string outcome \<times> db" where
  "logout sec rt logout_data d =
     (let access_payload = decode_token sec (lo_access_token logout_data);
          refresh_payload = decode_token sec (lo_refresh_token logout_data)
      in if not_payload access_payload \<or> not_payload refresh_payload
         then (Inl (HTTPException 400 ''Invalid tokens'' []), d)
         else (case (access_payload, refresh_payload) of
                 (Some ap, Some rp) \<Rightarrow>
                   let user_id = py_or (dict_get ap ''sub'') (dict_get rp ''sub'')
                   in if \<not> truthy user_id then (Inl (HTTPException 400 ''Invalid token payload'' []), d)
                      else
                        let access_jti = py_or (get_jti_from_token sec (lo_access_token logout_data))
                                               (dict_get ap ''jti'')
                        in (case blacklist_entry rt access_jti user_id ''access'' ap of
                              Inl e \<Rightarrow> (Inl e, d)
                            | Inr added_access \<Rightarrow>
                                let refresh_jti = py_or (get_jti_from_token sec (lo_refresh_token logout_data))
                                                        (dict_get rp ''jti'')
                                in (case blacklist_entry rt refresh_jti user_id ''refresh'' rp of
                                      Inl e \<Rightarrow> (Inl e, d)
                                    | Inr added_refresh \<Rightarrow>
                                        (case commit_blacklist rt d (added_access @ added_refresh) of
                                           Inl e \<Rightarrow> (Inl e, d)
                                         | Inr d' \<Rightarrow> (Inr (200, ''Successfully logged out''), d'))))
               | _ \<Rightarrow> (Inl AttributeError, d)))"

definition get_current_user_id :: "security \<Rightarrow> runtime \<Rightarrow> string \<Rightarrow> db \<Rightarrow> error + uuid" where
  \<comment> \<open>\<^verbatim>\<open>credentials.credentials\<close> is the bearer token string\<close>
  "get_current_user_id sec rt token d =
     (let payload = decode_token sec token
      in if not_payload payload then Inl (HTTPException 401 ''Invalid token'' [(''WWW-Authenticate'', ''Bearer'')])
         else (case payload of
                 None \<Rightarrow> Inl AttributeError
               | Some p \<Rightarrow>
                   let user_id = dict_get p ''sub'' in
                   if \<not> truthy user_id then Inl (HTTPException 401 ''Invalid token payload'' [(''WWW-Authenticate'', ''Bearer'')])
                   else (case UUID rt user_id of
                           Inl ValueError \<Rightarrow>
                             Inl (HTTPException 401 ''Invalid user ID in token''
                                    [(''WWW-Authenticate'', ''Bearer'')])
                         | Inl e \<Rightarrow> Inl e
                         | Inr u \<Rightarrow> Inr u)))"

section \<open>A sample deployment\<close>

text \<open>
  Two accounts, one of them disabled, and a token codec given by a table: an access and a
  refresh token of the first account, a refresh token of the second, access tokens whose
  \<^verbatim>\<open>sub\<close> is no UUID, is missing, is empty or is a number, and strings that do not decode. The theorems below are applied to it.
\<close>

definition alice_id :: string where
  "alice_id = ''00000000-0000-4000-8000-000000000001''"

definition bob_id :: string where
  "bob_id = ''00000000-0000-4000-8000-000000000002''"

definition alice :: User where
  "alice = \<lparr>u_id = 1, u_email = ''a@x.com'', u_username = ''alice'', u_full_name = None,
     u_hashed_password = ''h:password123'', u_is_active = Some True, u_is_verified = Some False,
     u_created_at = Some 1700000000, u_last_login = None\<rparr>"

definition bob :: User where
  "bob = \<lparr>u_id = 2, u_email = ''b@x.com'', u_username = ''bob'', u_full_name = Some ''Bob'',
     u_hashed_password = ''h:hunter2hunter2'', u_is_active = Some False, u_is_verified = Some False,
     u_created_at = Some 1700000000, u_last_login = None\<rparr>"

definition sample_db :: db where
  "sample_db = \<lparr>users = [alice, bob], token_blacklist = []\<rparr>"

definition sample_tokens :: "(string \<times> payload) list" where
  "sample_tokens =
     [(''tok.access.alice'',
         [(''sub'', PStr alice_id), (''type'', PStr ''access''), (''jti'', PStr ''jti-a1''), (''exp'', PInt 1700001800)]),
      (''tok.refresh.alice'',
         [(''sub'', PStr alice_id), (''type'', PStr ''refresh''), (''jti'', PStr ''jti-r1''), (''exp'', PInt 1700604800)]),
      (''tok.refresh.bob'',
         [(''sub'', PStr bob_id), (''type'', PStr ''refresh''), (''jti'', PStr ''jti-r2''), (''exp'', PInt 1700604800)]),
      (''tok.access.nouuid'',
         [(''sub'', PStr ''alice''), (''type'', PStr ''access''), (''jti'', PStr ''jti-a3''), (''exp'', PInt 1700001800)]),
      (''tok.access.nosub'',
         [(''type'', PStr ''access''), (''jti'', PStr ''jti-a4''), (''exp'', PInt 1700001800)]),
      (''tok.access.emptysub'',
         [(''sub'', PStr []), (''type'', PStr ''access''), (''jti'', PStr ''jti-a5''), (''exp'', PInt 1700001800)]),
      (''tok.access.intsub'',
         [(''sub'', PInt 12345), (''type'', PStr ''access''), (''jti'', PStr ''jti-a6''), (''exp'', PInt 1700001800)])]"

definition sample_security :: security where
  "sample_security =
     \<lparr>decode_token = map_of sample_tokens,
      get_jti_from_token = (\<lambda>t. case map_of sample_tokens t of None \<Rightarrow> PNone | Some p \<Rightarrow> dict_get p ''jti''),
      verify_password = (\<lambda>plain hashed. hashed = ''h:'' @ plain),
      get_password_hash = (\<lambda>plain. ''h:'' @ plain),
      create_access_token = (\<lambda>data. ''tok.access.new''),
      create_refresh_token = (\<lambda>data. ''tok.refresh.new'')\<rparr>"

definition sample_runtime :: runtime where
  "sample_runtime =
     \<lparr>UUID_hex = map_of [(alice_id, 1), (bob_id, 2)],
      str_uuid = (\<lambda>u. if u = 1 then alice_id else if u = 2 then bob_id
                       else ''00000000-0000-4000-8000-000000000003''),
      uuid4 = 3,
      utcnow = 1700000000,
      now = 1700000000,
      fromtimestamp = (\<lambda>v. case v of PInt n \<Rightarrow> Inr n | PBool b \<Rightarrow> Inr (if b then 1 else 0) | _ \<Rightarrow> Inl TypeError),
      isoformat = (\<lambda>t. ''2023-11-14T22:13:20''),
      db_uuid = (\<lambda>v. case v of PStr s \<Rightarrow> map_of [(alice_id, 1), (bob_id, 2)] s | _ \<Rightarrow> None)\<rparr>"

definition mixed_logout :: LogoutRequest where
  \<comment> \<open>an access token of the first account with a refresh token of the second\<close>
  "mixed_logout = \<lparr>lo_access_token = ''tok.access.alice'', lo_refresh_token = ''tok.refresh.bob''\<rparr>"

definition nosub_logout :: LogoutRequest where
  \<comment> \<open>an access token without a \<^verbatim>\<open>sub\<close> with a refresh token of the second account\<close>
  "nosub_logout = \<lparr>lo_access_token = ''tok.access.nosub'', lo_refresh_token = ''tok.refresh.bob''\<rparr>"

definition emptysub_logout :: LogoutRequest where
  \<comment> \<open>an access token whose \<^verbatim>\<open>sub\<close> is the empty string with a refresh token of the second account\<close>
  "emptysub_logout = \<lparr>lo_access_token = ''tok.access.emptysub'', lo_refresh_token = ''tok.refresh.bob''\<rparr>"

definition half_logout :: LogoutRequest where
  \<comment> \<open>an access token that no longer decodes with a refresh token that does\<close>
  "half_logout = \<lparr>lo_access_token = ''tok.access.expired'', lo_refresh_token = ''tok.refresh.alice''\<rparr>"

definition sample_logout :: LogoutRequest where
  "sample_logout = \<lparr>lo_access_token = ''tok.access.alice'', lo_refresh_token = ''tok.refresh.alice''\<rparr>"

definition unknown_login :: LoginRequest where
  "unknown_login = \<lparr>lr_email = ''nobody@x.com'', lr_password = ''password123''\<rparr>"

definition wrong_login :: LoginRequest where
  "wrong_login = \<lparr>lr_email = ''a@x.com'', lr_password = ''password124''\<rparr>"

definition disabled_login :: LoginRequest where
  "disabled_login = \<lparr>lr_email = ''b@x.com'', lr_password = ''hunter2hunter2''\<rparr>"

definition taken_register :: RegisterRequest where
  "taken_register = \<lparr>rr_email = ''c@x.com'', rr_username = ''alice'', rr_password = ''password123'',
     rr_full_name = None\<rparr>"

definition fresh_register :: RegisterRequest where
  "fresh_register = \<lparr>rr_email = ''c@x.com'', rr_username = ''carol'', rr_password = ''password123'',
     rr_full_name = Some ''Carol''\<rparr>"

definition alice_refresh_claims :: payload where
  "alice_refresh_claims =
     [(''sub'', PStr alice_id), (''type'', PStr ''refresh''), (''jti'', PStr ''jti-r1''), (''exp'', PInt 1700604800)]"

definition alice_access_claims :: payload where
  "alice_access_claims =
     [(''sub'', PStr alice_id), (''type'', PStr ''access''), (''jti'', PStr ''jti-a1''), (''exp'', PInt 1700001800)]"

definition logged_out_db :: db where
  \<comment> \<open>the sample store with the two revocation rows of \<open>sample_logout\<close>\<close>
  "logged_out_db =
     \<lparr>users = [alice, bob],
      token_blacklist =
        [\<lparr>bl_jti = PStr ''jti-a1'', bl_user_id = PStr alice_id, bl_token_type = ''access'',
          bl_expires_at = 1700001800, bl_reason = ''logout''\<rparr>,
         \<lparr>bl_jti = PStr ''jti-r1'', bl_user_id = PStr alice_id, bl_token_type = ''refresh'',
          bl_expires_at = 1700604800, bl_reason = ''logout''\<rparr>]\<rparr>"

section \<open>Auxiliary facts\<close>

lemmas sample_defs = sample_security_def sample_runtime_def sample_logout_def sample_db_def
  sample_tokens_def alice_def bob_def alice_id_def bob_id_def mixed_logout_def half_logout_def
  unknown_login_def wrong_login_def disabled_login_def taken_register_def fresh_register_def
  alice_refresh_claims_def alice_access_claims_def logged_out_db_def nosub_logout_def
  emptysub_logout_def

lemmas py_defs = py_or_def dict_get_def dict_get_default_def

lemma first_by_email_None: "first_by_email d e = None \<longleftrightarrow> e \<notin> set (map u_email (users d))"
  by (auto simp: first_by_email_def find_None_iff)

lemma first_by_username_None: "first_by_username d n = None \<longleftrightarrow> n \<notin> set (map u_username (users d))"
  by (auto simp: first_by_username_def find_None_iff)

lemma commit_blacklist_appends:
  "commit_blacklist rt d es = Inr d' \<Longrightarrow> token_blacklist d' = token_blacklist d @ es \<and> users d' = users d"
proof (induction es arbitrary: d)
  case Nil
  then show ?case by simp
next
  case (Cons e es)
  then show ?case
    by (auto simp: insert_blacklist_def split: sum.splits option.splits if_splits)
qed

lemma get_current_user_id_text_subject:
  \<comment> \<open>a \<^verbatim>\<open>sub\<close> that is a non-empty str: 401 when it does not parse, the UUID when it does\<close>
  assumes "decode_token sec token = Some p" and "dict_get p ''sub'' = PStr s" and "s \<noteq> []"
  shows "get_current_user_id sec rt token d =
           (case UUID_hex rt s of
              None \<Rightarrow> Inl (HTTPException 401 ''Invalid user ID in token'' [(''WWW-Authenticate'', ''Bearer'')])
            | Some u \<Rightarrow> Inr u)"
proof -
  from assms(2) have "p \<noteq> []"
    by (auto simp: py_defs)
  then show ?thesis
    using assms by (simp add: get_current_user_id_def UUID_def Let_def split: option.splits)
qed

lemma get_current_user_id_non_text_subject:
  \<comment> \<open>a \<^verbatim>\<open>sub\<close> that passes the truth test and is no str: \<^verbatim>\<open>UUID(user_id)\<close> fails on
      \<^verbatim>\<open>user_id.replace\<close>, and only ValueError is caught\<close>
  assumes "decode_token sec token = Some p" and "truthy (dict_get p ''sub'')"
    and "\<forall>s. dict_get p ''sub'' \<noteq> PStr s"
  shows "get_current_user_id sec rt token d = Inl AttributeError"
proof -
  from assms(2) have "p \<noteq> []"
    by (auto simp: py_defs)
  moreover from assms(3) have "UUID rt (dict_get p ''sub'') = Inl AttributeError"
    by (cases "dict_get p ''sub''") (simp_all add: UUID_def)
  ultimately show ?thesis
    using assms(1,2) by (simp add: get_current_user_id_def Let_def)
qed

lemma two_rows_same:
  "length xs = 2 \<Longrightarrow> \<forall>e\<in>set xs. f e = v \<Longrightarrow> map f xs = [v, v]"
  by (auto simp: numeral_2_eq_2 length_Suc_conv)

lemma blacklist_entry_user_id:
  "blacklist_entry rt jti uid kind p = Inr added \<Longrightarrow> \<forall>e\<in>set added. bl_user_id e = uid"
  by (auto simp: blacklist_entry_def split: if_splits sum.splits)

section \<open>Refresh and the revocation ledger\<close>

text \<open>
  In the sample deployment the logout of the first account succeeds and writes a revocation
  row for the jti of its refresh token; the refresh request that presents this same refresh
  token afterwards, against the store the logout left, is answered 200 with a new access
  token, not 401.
\<close>

theorem refresh_after_logout_counterexample:
  "fst (logout sample_security sample_runtime sample_logout sample_db)
     = Inr (200, ''Successfully logged out'')
   \<and> map bl_jti (token_blacklist (snd (logout sample_security sample_runtime sample_logout sample_db)))
       = [PStr ''jti-a1'', PStr ''jti-r1'']
   \<and> fst (refresh_token_handler sample_security \<lparr>rq_refresh_token = ''tok.refresh.alice''\<rparr>
            (snd (logout sample_security sample_runtime sample_logout sample_db)))
       = Inr (200, \<lparr>access_token = ''tok.access.new'', refresh_token = ''tok.refresh.alice'',
                    token_type = ''bearer''\<rparr>)"
  by (simp add: logout_def refresh_token_handler_def sample_defs py_defs blacklist_entry_def
      insert_blacklist_def Let_def)

text \<open>
  C1 (as amended): after a successful logout, a refresh request presenting the same refresh
  token is answered exactly as it would have been against the store before the logout, since
  the refresh operation does not consult the revocation ledger; in particular it still
  succeeds with a new access token whenever the token's type is \<^verbatim>\<open>refresh\<close> and its
  \<^verbatim>\<open>sub\<close> is not empty.
\<close>

theorem refresh_after_logout_unchanged:
  assumes "logout sec rt logout_data d = (Inr ok, d')"
  shows "fst (refresh_token_handler sec \<lparr>rq_refresh_token = lo_refresh_token logout_data\<rparr> d')
           = fst (refresh_token_handler sec \<lparr>rq_refresh_token = lo_refresh_token logout_data\<rparr> d)
         \<and> (\<exists>rp. decode_token sec (lo_refresh_token logout_data) = Some rp \<and>
               (dict_get rp ''type'' = PStr ''refresh'' \<and> truthy (dict_get rp ''sub'') \<longrightarrow>
                  fst (refresh_token_handler sec \<lparr>rq_refresh_token = lo_refresh_token logout_data\<rparr> d')
                    = Inr (200, \<lparr>access_token = create_access_token sec [(''sub'', dict_get rp ''sub'')],
                                 refresh_token = lo_refresh_token logout_data,
                                 token_type = ''bearer''\<rparr>)))"
proof -
  obtain rp where rp: "decode_token sec (lo_refresh_token logout_data) = Some rp" and ne: "rp \<noteq> []"
    using assms by (cases "decode_token sec (lo_refresh_token logout_data)")
      (auto simp: logout_def Let_def split: if_splits)
  show ?thesis using rp ne by (simp add: refresh_token_handler_def Let_def)
qed

theorem refresh_after_logout_unchanged_witness:
  "logout sample_security sample_runtime sample_logout sample_db
     = (Inr (200, ''Successfully logged out''), logged_out_db)
   \<and> fst (refresh_token_handler sample_security \<lparr>rq_refresh_token = ''tok.refresh.alice''\<rparr> logged_out_db)
       = fst (refresh_token_handler sample_security \<lparr>rq_refresh_token = ''tok.refresh.alice''\<rparr> sample_db)
   \<and> fst (refresh_token_handler sample_security \<lparr>rq_refresh_token = ''tok.refresh.alice''\<rparr> logged_out_db)
       = Inr (200, \<lparr>access_token = ''tok.access.new'', refresh_token = ''tok.refresh.alice'',
                    token_type = ''bearer''\<rparr>)"
proof -
  have run: "logout sample_security sample_runtime sample_logout sample_db
               = (Inr (200, ''Successfully logged out''), logged_out_db)"
    by (simp add: logout_def sample_defs py_defs blacklist_entry_def insert_blacklist_def Let_def)
  have tok: "lo_refresh_token sample_logout = ''tok.refresh.alice''"
    by (simp add: sample_logout_def)
  from refresh_after_logout_unchanged [OF run] obtain rp where
    same: "fst (refresh_token_handler sample_security \<lparr>rq_refresh_token = ''tok.refresh.alice''\<rparr> logged_out_db)
             = fst (refresh_token_handler sample_security \<lparr>rq_refresh_token = ''tok.refresh.alice''\<rparr> sample_db)"
    and rp: "decode_token sample_security ''tok.refresh.alice'' = Some rp"
    and ok: "dict_get rp ''type'' = PStr ''refresh'' \<and> truthy (dict_get rp ''sub'') \<longrightarrow>
               fst (refresh_token_handler sample_security \<lparr>rq_refresh_token = ''tok.refresh.alice''\<rparr> logged_out_db)
                 = Inr (200, \<lparr>access_token = create_access_token sample_security [(''sub'', dict_get rp ''sub'')],
                              refresh_token = ''tok.refresh.alice'', token_type = ''bearer''\<rparr>)"
    unfolding tok by blast
  from rp have "rp = alice_refresh_claims"
    by (simp add: sample_defs)
  with ok have "fst (refresh_token_handler sample_security \<lparr>rq_refresh_token = ''tok.refresh.alice''\<rparr> logged_out_db)
                  = Inr (200, \<lparr>access_token = ''tok.access.new'', refresh_token = ''tok.refresh.alice'',
                               token_type = ''bearer''\<rparr>)"
    by (simp add: sample_defs py_defs)
  with run same show ?thesis by simp
qed

section \<open>Logout\<close>

text \<open>
  In the sample deployment a logout whose access token no longer decodes and whose refresh
  token decodes is refused with 400 and leaves the store as it was: no revocation row is
  written for the refresh token.
\<close>

theorem logout_one_token_counterexample:
  "decode_token sample_security (lo_access_token half_logout) = None
   \<and> decode_token sample_security (lo_refresh_token half_logout) = Some alice_refresh_claims
   \<and> logout sample_security sample_runtime half_logout sample_db
       = (Inl (HTTPException 400 ''Invalid tokens'' []), sample_db)"
  by (simp add: logout_def sample_defs Let_def)

text \<open>
  C2 (as amended): logout fails with InvalidToken (400, detail "Invalid tokens") as soon as
  either the access token or the refresh token fails to decode (or decodes to an empty
  payload), and then writes no revocation entry; it goes on only when both tokens decode.
\<close>

theorem logout_requires_both_tokens:
  assumes "not_payload (decode_token sec (lo_access_token logout_data))
           \<or> not_payload (decode_token sec (lo_refresh_token logout_data))"
  shows "logout sec rt logout_data d = (Inl (HTTPException 400 ''Invalid tokens'' []), d)"
  using assms by (auto simp: logout_def Let_def)

theorem logout_requires_both_tokens_witness:
  "\<not> not_payload (decode_token sample_security ''tok.access.alice'')
   \<and> not_payload (decode_token sample_security ''tok.refresh.garbled'')
   \<and> logout sample_security sample_runtime
        \<lparr>lo_access_token = ''tok.access.alice'', lo_refresh_token = ''tok.refresh.garbled''\<rparr> logged_out_db
       = (Inl (HTTPException 400 ''Invalid tokens'' []), logged_out_db)"
proof -
  have bad: "not_payload (decode_token sample_security ''tok.refresh.garbled'')"
    by (simp add: sample_defs)
  have good: "\<not> not_payload (decode_token sample_security ''tok.access.alice'')"
    by (simp add: sample_defs)
  have "not_payload (decode_token sample_security
            (lo_access_token \<lparr>lo_access_token = ''tok.access.alice'', lo_refresh_token = ''tok.refresh.garbled''\<rparr>))
        \<or> not_payload (decode_token sample_security
            (lo_refresh_token \<lparr>lo_access_token = ''tok.access.alice'', lo_refresh_token = ''tok.refresh.garbled''\<rparr>))"
    using bad by simp
  from logout_requires_both_tokens [OF this] good bad show ?thesis by blast
qed

text \<open>
  C3: logout twice with the same token pair. In the sample deployment the first logout
  succeeds; the second one, against the store the first one left, inserts the same jti again,
  the unique constraint on \<^verbatim>\<open>token_blacklist.jti\<close> refuses it and the commit raises
  IntegrityError, which the caller sees as status 500.
\<close>

theorem second_logout_integrity_error:
  "fst (logout sample_security sample_runtime sample_logout sample_db)
     = Inr (200, ''Successfully logged out'')
   \<and> logout sample_security sample_runtime sample_logout
        (snd (logout sample_security sample_runtime sample_logout sample_db))
       = (Inl IntegrityError, snd (logout sample_security sample_runtime sample_logout sample_db))
   \<and> http_status (fst (logout sample_security sample_runtime sample_logout
        (snd (logout sample_security sample_runtime sample_logout sample_db)))) = 500"
  by (simp add: logout_def sample_defs py_defs blacklist_entry_def insert_blacklist_def Let_def)

text \<open>
  C10: every revocation entry that one successful logout adds to the ledger, for the access
  token and for the refresh token alike, carries the same \<^verbatim>\<open>user_id\<close>: the \<^verbatim>\<open>sub\<close> of
  the access token when that is present (passes the truth test), otherwise the \<^verbatim>\<open>sub\<close> of
  the refresh token, whatever subject the other token names.
\<close>

theorem logout_entries_share_user_id:
  assumes "logout sec rt logout_data d = (Inr ok, d')"
  shows "\<exists>ap rp added.
           decode_token sec (lo_access_token logout_data) = Some ap \<and>
           decode_token sec (lo_refresh_token logout_data) = Some rp \<and>
           token_blacklist d' = token_blacklist d @ added \<and>
           (\<forall>e\<in>set added.
              bl_user_id e = (if truthy (dict_get ap ''sub'') then dict_get ap ''sub''
                              else dict_get rp ''sub''))"
proof -
  obtain ap rp where ap: "decode_token sec (lo_access_token logout_data) = Some ap"
    and rp: "decode_token sec (lo_refresh_token logout_data) = Some rp"
    using assms by (cases "decode_token sec (lo_access_token logout_data)";
        cases "decode_token sec (lo_refresh_token logout_data)") (auto simp: logout_def Let_def)
  define uid where "uid = py_or (dict_get ap ''sub'') (dict_get rp ''sub'')"
  define aj where "aj = py_or (get_jti_from_token sec (lo_access_token logout_data)) (dict_get ap ''jti'')"
  define rj where "rj = py_or (get_jti_from_token sec (lo_refresh_token logout_data)) (dict_get rp ''jti'')"
  from assms ap rp obtain a1 a2 where
    a1: "blacklist_entry rt aj uid ''access'' ap = Inr a1" and
    a2: "blacklist_entry rt rj uid ''refresh'' rp = Inr a2" and
    c: "commit_blacklist rt d (a1 @ a2) = Inr d'"
    by (auto simp: logout_def Let_def uid_def aj_def rj_def split: if_splits sum.splits)
  from c have "token_blacklist d' = token_blacklist d @ (a1 @ a2)"
    using commit_blacklist_appends by blast
  moreover have "\<forall>e\<in>set (a1 @ a2). bl_user_id e = uid"
    using blacklist_entry_user_id [OF a1] blacklist_entry_user_id [OF a2] by auto
  moreover have "uid = (if truthy (dict_get ap ''sub'') then dict_get ap ''sub'' else dict_get rp ''sub'')"
    by (simp add: uid_def py_or_def)
  ultimately show ?thesis using ap rp by blast
qed

text \<open>
  Three logouts on the sample store, each with the refresh token of the second account: with
  the access token of the first account both rows carry the first account's id; with an
  access token that has no \<^verbatim>\<open>sub\<close>, and with one whose \<^verbatim>\<open>sub\<close> is the empty string, both
  rows carry the second account's id.
\<close>

theorem logout_entries_share_user_id_witness:
  "map_of sample_tokens ''tok.refresh.bob''
     = Some [(''sub'', PStr bob_id), (''type'', PStr ''refresh''), (''jti'', PStr ''jti-r2''),
             (''exp'', PInt 1700604800)]
   \<and> map_of sample_tokens ''tok.access.alice''
     = Some [(''sub'', PStr alice_id), (''type'', PStr ''access''), (''jti'', PStr ''jti-a1''),
             (''exp'', PInt 1700001800)]
   \<and> fst (logout sample_security sample_runtime mixed_logout sample_db)
       = Inr (200, ''Successfully logged out'')
   \<and> map bl_token_type (token_blacklist (snd (logout sample_security sample_runtime mixed_logout sample_db)))
       = [''access'', ''refresh'']
   \<and> map bl_user_id (token_blacklist (snd (logout sample_security sample_runtime mixed_logout sample_db)))
       = [PStr alice_id, PStr alice_id]
   \<and> map_of sample_tokens ''tok.access.nosub''
     = Some [(''type'', PStr ''access''), (''jti'', PStr ''jti-a4''), (''exp'', PInt 1700001800)]
   \<and> fst (logout sample_security sample_runtime nosub_logout sample_db)
       = Inr (200, ''Successfully logged out'')
   \<and> map bl_token_type (token_blacklist (snd (logout sample_security sample_runtime nosub_logout sample_db)))
       = [''access'', ''refresh'']
   \<and> map bl_user_id (token_blacklist (snd (logout sample_security sample_runtime nosub_logout sample_db)))
       = [PStr bob_id, PStr bob_id]
   \<and> map_of sample_tokens ''tok.access.emptysub''
     = Some [(''sub'', PStr []), (''type'', PStr ''access''), (''jti'', PStr ''jti-a5''),
             (''exp'', PInt 1700001800)]
   \<and> fst (logout sample_security sample_runtime emptysub_logout sample_db)
       = Inr (200, ''Successfully logged out'')
   \<and> map bl_token_type (token_blacklist (snd (logout sample_security sample_runtime emptysub_logout sample_db)))
       = [''access'', ''refresh'']
   \<and> map bl_user_id (token_blacklist (snd (logout sample_security sample_runtime emptysub_logout sample_db)))
       = [PStr bob_id, PStr bob_id]"
proof -
  have toks: "map_of sample_tokens ''tok.refresh.bob''
       = Some [(''sub'', PStr bob_id), (''type'', PStr ''refresh''), (''jti'', PStr ''jti-r2''),
               (''exp'', PInt 1700604800)]"
    "map_of sample_tokens ''tok.access.alice''
       = Some [(''sub'', PStr alice_id), (''type'', PStr ''access''), (''jti'', PStr ''jti-a1''),
               (''exp'', PInt 1700001800)]"
    "map_of sample_tokens ''tok.access.nosub''
       = Some [(''type'', PStr ''access''), (''jti'', PStr ''jti-a4''), (''exp'', PInt 1700001800)]"
    "map_of sample_tokens ''tok.access.emptysub''
       = Some [(''sub'', PStr []), (''type'', PStr ''access''), (''jti'', PStr ''jti-a5''),
               (''exp'', PInt 1700001800)]"
    by (simp_all add: sample_tokens_def)

  define after1 where "after1 = snd (logout sample_security sample_runtime mixed_logout sample_db)"
  have run1: "logout sample_security sample_runtime mixed_logout sample_db
                = (Inr (200, ''Successfully logged out''), after1)"
    unfolding after1_def
    by (simp add: logout_def sample_defs py_defs blacklist_entry_def insert_blacklist_def Let_def)
  have kinds1: "map bl_token_type (token_blacklist after1) = [''access'', ''refresh'']"
    unfolding after1_def
    by (simp add: logout_def sample_defs py_defs blacklist_entry_def insert_blacklist_def Let_def)
  from logout_entries_share_user_id [OF run1] obtain ap1 rp1 added1 where
    ap1: "decode_token sample_security (lo_access_token mixed_logout) = Some ap1" and
    rp1: "decode_token sample_security (lo_refresh_token mixed_logout) = Some rp1" and
    app1: "token_blacklist after1 = token_blacklist sample_db @ added1" and
    uid1: "\<forall>e\<in>set added1. bl_user_id e = (if truthy (dict_get ap1 ''sub'') then dict_get ap1 ''sub''
                                            else dict_get rp1 ''sub'')"
    by blast
  from ap1 rp1 have "(if truthy (dict_get ap1 ''sub'') then dict_get ap1 ''sub'' else dict_get rp1 ''sub'')
                       = PStr alice_id"
    by (auto simp: sample_defs py_defs)
  with uid1 app1 have "\<forall>e\<in>set (token_blacklist after1). bl_user_id e = PStr alice_id"
    by (simp add: sample_db_def)
  moreover from kinds1 have "length (token_blacklist after1) = 2"
    by (metis length_map length_Cons list.size(3) numeral_2_eq_2)
  ultimately have ids1: "map bl_user_id (token_blacklist after1) = [PStr alice_id, PStr alice_id]"
    by (simp add: two_rows_same)
  have ok1: "fst (logout sample_security sample_runtime mixed_logout sample_db)
               = Inr (200, ''Successfully logged out'')"
    using run1 by simp

  define after2 where "after2 = snd (logout sample_security sample_runtime nosub_logout sample_db)"
  have run2: "logout sample_security sample_runtime nosub_logout sample_db
                = (Inr (200, ''Successfully logged out''), after2)"
    unfolding after2_def
    by (simp add: logout_def sample_defs py_defs blacklist_entry_def insert_blacklist_def Let_def)
  have kinds2: "map bl_token_type (token_blacklist after2) = [''access'', ''refresh'']"
    unfolding after2_def
    by (simp add: logout_def sample_defs py_defs blacklist_entry_def insert_blacklist_def Let_def)
  from logout_entries_share_user_id [OF run2] obtain ap2 rp2 added2 where
    ap2: "decode_token sample_security (lo_access_token nosub_logout) = Some ap2" and
    rp2: "decode_token sample_security (lo_refresh_token nosub_logout) = Some rp2" and
    app2: "token_blacklist after2 = token_blacklist sample_db @ added2" and
    uid2: "\<forall>e\<in>set added2. bl_user_id e = (if truthy (dict_get ap2 ''sub'') then dict_get ap2 ''sub''
                                            else dict_get rp2 ''sub'')"
    by blast
  from ap2 rp2 have "(if truthy (dict_get ap2 ''sub'') then dict_get ap2 ''sub'' else dict_get rp2 ''sub'')
                       = PStr bob_id"
    by (auto simp: sample_defs py_defs)
  with uid2 app2 have "\<forall>e\<in>set (token_blacklist after2). bl_user_id e = PStr bob_id"
    by (simp add: sample_db_def)
  moreover from kinds2 have "length (token_blacklist after2) = 2"
    by (metis length_map length_Cons list.size(3) numeral_2_eq_2)
  ultimately have ids2: "map bl_user_id (token_blacklist after2) = [PStr bob_id, PStr bob_id]"
    by (simp add: two_rows_same)
  have ok2: "fst (logout sample_security sample_runtime nosub_logout sample_db)
               = Inr (200, ''Successfully logged out'')"
    using run2 by simp

  define after3 where "after3 = snd (logout sample_security sample_runtime emptysub_logout sample_db)"
  have run3: "logout sample_security sample_runtime emptysub_logout sample_db
                = (Inr (200, ''Successfully logged out''), after3)"
    unfolding after3_def
    by (simp add: logout_def sample_defs py_defs blacklist_entry_def insert_blacklist_def Let_def)
  have kinds3: "map bl_token_type (token_blacklist after3) = [''access'', ''refresh'']"
    unfolding after3_def
    by (simp add: logout_def sample_defs py_defs blacklist_entry_def insert_blacklist_def Let_def)
  from logout_entries_share_user_id [OF run3] obtain ap3 rp3 added3 where
    ap3: "decode_token sample_security (lo_access_token emptysub_logout) = Some ap3" and
    rp3: "decode_token sample_security (lo_refresh_token emptysub_logout) = Some rp3" and
    app3: "token_blacklist after3 = token_blacklist sample_db @ added3" and
    uid3: "\<forall>e\<in>set added3. bl_user_id e = (if truthy (dict_get ap3 ''sub'') then dict_get ap3 ''sub''
                                            else dict_get rp3 ''sub'')"
    by blast
  from ap3 rp3 have "(if truthy (dict_get ap3 ''sub'') then dict_get ap3 ''sub'' else dict_get rp3 ''sub'')
                       = PStr bob_id"
    by (auto simp: sample_defs py_defs)
  with uid3 app3 have "\<forall>e\<in>set (token_blacklist after3). bl_user_id e = PStr bob_id"
    by (simp add: sample_db_def)
  moreover from kinds3 have "length (token_blacklist after3) = 2"
    by (metis length_map length_Cons list.size(3) numeral_2_eq_2)
  ultimately have ids3: "map bl_user_id (token_blacklist after3) = [PStr bob_id, PStr bob_id]"
    by (simp add: two_rows_same)
  have ok3: "fst (logout sample_security sample_runtime emptysub_logout sample_db)
               = Inr (200, ''Successfully logged out'')"
    using run3 by simp

  show ?thesis
    using toks ok1 kinds1 [unfolded after1_def] ids1 [unfolded after1_def]
      ok2 kinds2 [unfolded after2_def] ids2 [unfolded after2_def]
      ok3 kinds3 [unfolded after3_def] ids3 [unfolded after3_def]
    by blast
qed

section \<open>Login\<close>

text \<open>
  C4: a login whose email matches no account and a login whose email matches an account but
  whose password does not verify against the stored hash fail with the same error, status
  401 with detail "Invalid email or password", and leave the store as it was.
\<close>

theorem login_failures_indistinguishable:
  assumes "first_by_email d (lr_email unknown) = None"
    and "first_by_email d (lr_email wrong) = Some user"
    and "\<not> verify_password sec (lr_password wrong) (u_hashed_password user)"
  shows "login sec rt unknown d = (Inl (HTTPException 401 ''Invalid email or password'' []), d)
         \<and> login sec rt wrong d = (Inl (HTTPException 401 ''Invalid email or password'' []), d)"
  using assms by (simp add: login_def)

theorem login_failures_indistinguishable_witness:
  "first_by_email sample_db (lr_email unknown_login) = None
   \<and> first_by_email sample_db (lr_email wrong_login) = Some alice
   \<and> \<not> verify_password sample_security (lr_password wrong_login) (u_hashed_password alice)
   \<and> login sample_security sample_runtime unknown_login sample_db
       = (Inl (HTTPException 401 ''Invalid email or password'' []), sample_db)
   \<and> login sample_security sample_runtime wrong_login sample_db
       = (Inl (HTTPException 401 ''Invalid email or password'' []), sample_db)"
proof -
  have a: "first_by_email sample_db (lr_email unknown_login) = None"
    by (simp add: first_by_email_def sample_defs)
  have b: "first_by_email sample_db (lr_email wrong_login) = Some alice"
    by (simp add: first_by_email_def sample_defs)
  have c: "\<not> verify_password sample_security (lr_password wrong_login) (u_hashed_password alice)"
    by (simp add: sample_defs)
  from login_failures_indistinguishable [OF a b c, of sample_runtime] a b c
  show ?thesis by blast
qed

text \<open>
  C7: when the email matches a credential record and the password verifies against its
  stored hash, an account whose active flag is false is refused with status 403 and detail
  "User account is disabled"; and login answers 403 only where the lookup found a record and
  the password verified.
\<close>

theorem login_disabled_account:
  "(first_by_email d (lr_email login_data) = Some user
      \<and> verify_password sec (lr_password login_data) (u_hashed_password user)
      \<and> u_is_active user = Some False
    \<longrightarrow> login sec rt login_data d = (Inl (HTTPException 403 ''User account is disabled'' []), d))
   \<and> (http_status (fst (login sec rt login_data d)) = 403
    \<longrightarrow> (\<exists>found. first_by_email d (lr_email login_data) = Some found
           \<and> verify_password sec (lr_password login_data) (u_hashed_password found)
           \<and> u_is_active found \<noteq> Some True))"
  by (auto simp: login_def Let_def split: option.splits if_splits)

theorem login_disabled_account_witness:
  "first_by_email sample_db (lr_email disabled_login) = Some bob
   \<and> verify_password sample_security (lr_password disabled_login) (u_hashed_password bob)
   \<and> u_is_active bob = Some False
   \<and> login sample_security sample_runtime disabled_login sample_db
       = (Inl (HTTPException 403 ''User account is disabled'' []), sample_db)
   \<and> http_status (fst (login sample_security sample_runtime disabled_login sample_db)) = 403"
proof -
  have a: "first_by_email sample_db (lr_email disabled_login) = Some bob"
    by (simp add: first_by_email_def sample_defs)
  have b: "verify_password sample_security (lr_password disabled_login) (u_hashed_password bob)"
    by (simp add: sample_defs)
  have c: "u_is_active bob = Some False"
    by (simp add: bob_def)
  from login_disabled_account [of sample_db disabled_login bob sample_security sample_runtime] a b c
  have "login sample_security sample_runtime disabled_login sample_db
          = (Inl (HTTPException 403 ''User account is disabled'' []), sample_db)"
    by blast
  with a b c show ?thesis by simp
qed

section \<open>Registration\<close>

text \<open>
  C8: a registration whose email or username is already in the credential store fails with
  status 400 and leaves the store as it was; a registration whose email and username are both
  new (the primary key drawn for the row being new as well) returns 201 with the summary of
  the new user and appends exactly that one user record to the store.
\<close>

theorem register_duplicate_or_fresh:
  "(rr_email register_data \<in> set (map u_email (users d))
      \<or> rr_username register_data \<in> set (map u_username (users d))
    \<longrightarrow> http_status (fst (register sec rt register_data d)) = 400
        \<and> snd (register sec rt register_data d) = d)
   \<and> (rr_email register_data \<notin> set (map u_email (users d))
      \<and> rr_username register_data \<notin> set (map u_username (users d))
      \<and> uuid4 rt \<notin> set (map u_id (users d))
    \<longrightarrow> register sec rt register_data d
          = (Inr (201, user_response rt (new_user sec rt register_data)),
             d\<lparr>users := users d @ [new_user sec rt register_data]\<rparr>))"
proof (intro conjI impI)
  assume dup: "rr_email register_data \<in> set (map u_email (users d))
      \<or> rr_username register_data \<in> set (map u_username (users d))"
  then have "first_by_email d (rr_email register_data) \<noteq> None
             \<or> first_by_username d (rr_username register_data) \<noteq> None"
    by (simp add: first_by_email_None first_by_username_None)
  then show "http_status (fst (register sec rt register_data d)) = 400"
    by (auto simp: register_def split: option.splits)
  show "snd (register sec rt register_data d) = d"
    using dup
    by (auto simp: register_def insert_user_def new_user_def first_by_email_None
        first_by_username_None split: option.splits)
next
  assume fresh: "rr_email register_data \<notin> set (map u_email (users d))
      \<and> rr_username register_data \<notin> set (map u_username (users d))
      \<and> uuid4 rt \<notin> set (map u_id (users d))"
  then have "first_by_email d (rr_email register_data) = None"
    and "first_by_username d (rr_username register_data) = None"
    by (simp_all add: first_by_email_None first_by_username_None)
  moreover have "insert_user d (new_user sec rt register_data)
                 = Inr (d\<lparr>users := users d @ [new_user sec rt register_data]\<rparr>)"
    using fresh by (simp add: insert_user_def new_user_def)
  ultimately show "register sec rt register_data d
          = (Inr (201, user_response rt (new_user sec rt register_data)),
             d\<lparr>users := users d @ [new_user sec rt register_data]\<rparr>)"
    by (simp add: register_def)
qed

theorem register_duplicate_or_fresh_witness:
  "rr_username taken_register \<in> set (map u_username (users sample_db))
   \<and> http_status (fst (register sample_security sample_runtime taken_register sample_db)) = 400
   \<and> snd (register sample_security sample_runtime taken_register sample_db) = sample_db
   \<and> rr_email fresh_register \<notin> set (map u_email (users sample_db))
   \<and> rr_username fresh_register \<notin> set (map u_username (users sample_db))
   \<and> uuid4 sample_runtime \<notin> set (map u_id (users sample_db))
   \<and> register sample_security sample_runtime fresh_register sample_db
       = (Inr (201, \<lparr>ur_id = ''00000000-0000-4000-8000-000000000003'', ur_email = ''c@x.com'',
                     ur_username = ''carol'', ur_full_name = Some ''Carol'', ur_is_active = Some True,
                     ur_created_at = Some ''2023-11-14T22:13:20''\<rparr>),
          \<lparr>users = [alice, bob,
                    \<lparr>u_id = 3, u_email = ''c@x.com'', u_username = ''carol'', u_full_name = Some ''Carol'',
                     u_hashed_password = ''h:password123'', u_is_active = Some True,
                     u_is_verified = Some False, u_created_at = Some 1700000000,
                     u_last_login = None\<rparr>],
           token_blacklist = []\<rparr>)"
proof -
  have taken: "rr_username taken_register \<in> set (map u_username (users sample_db))"
    by (simp add: sample_defs)
  have fresh: "rr_email fresh_register \<notin> set (map u_email (users sample_db))
      \<and> rr_username fresh_register \<notin> set (map u_username (users sample_db))
      \<and> uuid4 sample_runtime \<notin> set (map u_id (users sample_db))"
    by (simp add: sample_defs)
  have refused: "http_status (fst (register sample_security sample_runtime taken_register sample_db)) = 400
      \<and> snd (register sample_security sample_runtime taken_register sample_db) = sample_db"
    using register_duplicate_or_fresh [of taken_register sample_db sample_security sample_runtime] taken
    by blast
  have "register sample_security sample_runtime fresh_register sample_db
          = (Inr (201, user_response sample_runtime (new_user sample_security sample_runtime fresh_register)),
             sample_db\<lparr>users := users sample_db @ [new_user sample_security sample_runtime fresh_register]\<rparr>)"
    using register_duplicate_or_fresh [of fresh_register sample_db sample_security sample_runtime] fresh
    by blast
  then have created: "register sample_security sample_runtime fresh_register sample_db
       = (Inr (201, \<lparr>ur_id = ''00000000-0000-4000-8000-000000000003'', ur_email = ''c@x.com'',
                     ur_username = ''carol'', ur_full_name = Some ''Carol'', ur_is_active = Some True,
                     ur_created_at = Some ''2023-11-14T22:13:20''\<rparr>),
          \<lparr>users = [alice, bob,
                    \<lparr>u_id = 3, u_email = ''c@x.com'', u_username = ''carol'', u_full_name = Some ''Carol'',
                     u_hashed_password = ''h:password123'', u_is_active = Some True,
                     u_is_verified = Some False, u_created_at = Some 1700000000,
                     u_last_login = None\<rparr>],
           token_blacklist = []\<rparr>)"
    by (simp add: user_response_def new_user_def sample_security_def sample_runtime_def
        sample_db_def fresh_register_def)
  from taken fresh refused created show ?thesis by blast
qed

section \<open>Refresh\<close>

text \<open>
  C5: the refresh operation rejects with status 401 every token that decodes with a type
  claim other than "refresh"; for a token that decodes with type "refresh" and a sub claim
  that is present (neither null nor empty) it returns 200 with a new access token made for
  that same sub and with the presented refresh token string unchanged.
\<close>

theorem refresh_type_check:
  "(decode_token sec (rq_refresh_token refresh_data) = Some p \<and> dict_get p ''type'' \<noteq> PStr ''refresh''
    \<longrightarrow> fst (refresh_token_handler sec refresh_data d)
          = Inl (HTTPException 401 (if p = [] then ''Invalid refresh token'' else ''Invalid token type'') []))
   \<and> (decode_token sec (rq_refresh_token refresh_data) = Some p \<and> dict_get p ''type'' = PStr ''refresh''
      \<and> truthy (dict_get p ''sub'')
    \<longrightarrow> fst (refresh_token_handler sec refresh_data d)
          = Inr (200, \<lparr>access_token = create_access_token sec [(''sub'', dict_get p ''sub'')],
                       refresh_token = rq_refresh_token refresh_data,
                       token_type = ''bearer''\<rparr>))"
  by (auto simp: refresh_token_handler_def Let_def py_defs)

theorem refresh_type_check_witness:
  "decode_token sample_security ''tok.access.alice'' = Some alice_access_claims
   \<and> dict_get alice_access_claims ''type'' \<noteq> PStr ''refresh''
   \<and> fst (refresh_token_handler sample_security \<lparr>rq_refresh_token = ''tok.access.alice''\<rparr> sample_db)
       = Inl (HTTPException 401 ''Invalid token type'' [])
   \<and> decode_token sample_security ''tok.refresh.alice'' = Some alice_refresh_claims
   \<and> dict_get alice_refresh_claims ''type'' = PStr ''refresh''
   \<and> truthy (dict_get alice_refresh_claims ''sub'')
   \<and> fst (refresh_token_handler sample_security \<lparr>rq_refresh_token = ''tok.refresh.alice''\<rparr> sample_db)
       = Inr (200, \<lparr>access_token = create_access_token sample_security [(''sub'', PStr alice_id)],
                    refresh_token = ''tok.refresh.alice'', token_type = ''bearer''\<rparr>)"
proof -
  have a: "decode_token sample_security (rq_refresh_token \<lparr>rq_refresh_token = ''tok.access.alice''\<rparr>)
             = Some alice_access_claims"
    by (simp add: sample_defs)
  have a': "dict_get alice_access_claims ''type'' \<noteq> PStr ''refresh''"
    by (simp add: alice_access_claims_def py_defs)
  have r: "decode_token sample_security (rq_refresh_token \<lparr>rq_refresh_token = ''tok.refresh.alice''\<rparr>)
             = Some alice_refresh_claims"
    by (simp add: sample_defs)
  have r': "dict_get alice_refresh_claims ''type'' = PStr ''refresh''"
    and r'': "truthy (dict_get alice_refresh_claims ''sub'')"
    and sub: "dict_get alice_refresh_claims ''sub'' = PStr alice_id"
    by (simp_all add: alice_refresh_claims_def alice_id_def py_defs)
  have ne: "alice_access_claims \<noteq> []"
    by (simp add: alice_access_claims_def)
  from refresh_type_check [of sample_security "\<lparr>rq_refresh_token = ''tok.access.alice''\<rparr>"
      alice_access_claims sample_db] a a' ne
  have rejected: "fst (refresh_token_handler sample_security \<lparr>rq_refresh_token = ''tok.access.alice''\<rparr> sample_db)
       = Inl (HTTPException 401 ''Invalid token type'' [])"
    by simp
  from refresh_type_check [of sample_security "\<lparr>rq_refresh_token = ''tok.refresh.alice''\<rparr>"
      alice_refresh_claims sample_db] r r' r'' sub
  have accepted: "fst (refresh_token_handler sample_security \<lparr>rq_refresh_token = ''tok.refresh.alice''\<rparr> sample_db)
       = Inr (200, \<lparr>access_token = create_access_token sample_security [(''sub'', PStr alice_id)],
                    refresh_token = ''tok.refresh.alice'', token_type = ''bearer''\<rparr>)"
    by simp
  from a a' r r' r'' rejected accepted show ?thesis by simp
qed

text \<open>
  C9: the refresh operation writes nothing: whatever the request and whether it succeeds or
  fails, the store it returns (credential records and revocation entries) is the store it
  was given.
\<close>

theorem refresh_no_store_write:
  "snd (refresh_token_handler sec refresh_data d) = d"
  by (simp add: refresh_token_handler_def Let_def split: option.splits)

theorem refresh_no_store_write_witness:
  "snd (refresh_token_handler sample_security \<lparr>rq_refresh_token = ''tok.refresh.alice''\<rparr> logged_out_db)
     = logged_out_db
   \<and> snd (refresh_token_handler sample_security \<lparr>rq_refresh_token = ''tok.access.expired''\<rparr> sample_db)
     = sample_db"
  using refresh_no_store_write [of sample_security "\<lparr>rq_refresh_token = ''tok.refresh.alice''\<rparr>" logged_out_db]
    refresh_no_store_write [of sample_security "\<lparr>rq_refresh_token = ''tok.access.expired''\<rparr>" sample_db]
  by simp

section \<open>The request authenticator\<close>


end
